theory Spec2Isabelle
  imports Main "HOL-Library.Word"
begin

text \<open>
  A shallow embedding of \<open>src/index.ts\<close> of node-systray: the menu model with
  the rule that renders a checked item on Linux, the encoding of actions, the
  decoding of the lines of the renderer, and the controller \<open>SysTray\<close> with
  the child process it owns. The definitions come first; the facts about them
  follow, with one section for each part of the controller.
\<close>

section \<open>JavaScript strings\<close>

text \<open>
  A JavaScript string is a sequence of UTF-16 code units. The check mark of
  \<open>CHECK_STR\<close> (U+221A) is one code unit, so it does not fit in a \<open>char\<close>;
  strings are lists of 16-bit words and \<open>js\<close> embeds an ASCII literal.
\<close>

type_synonym jstring = "16 word list"

definition js :: "string \<Rightarrow> jstring" where
  "js s = map of_char s"

section \<open>The data model of \<open>index.ts\<close>\<close>

text \<open>
  \<open>MenuItem\<close> objects are passed by reference and \<open>updateCheckedInLinux\<close>
  assigns to their \<open>title\<close>, so items live in a store and are named by their
  address. The TypeScript types promise that every reference held by a menu
  or an action is a \<open>MenuItem\<close>; the store is therefore total.
\<close>

record MenuItem =
  title :: jstring
  tooltip :: jstring
  checked :: bool
  enabled :: bool

type_synonym ref = nat

type_synonym heap = "ref \<Rightarrow> MenuItem"

text \<open>
  The fields of \<open>Menu\<close> carry a prefix because \<open>title\<close> and \<open>tooltip\<close>
  are taken by \<open>MenuItem\<close>. \<open>items\<close> is the array of item references.
\<close>

record Menu =
  menu_icon :: jstring
  menu_title :: jstring
  menu_tooltip :: jstring
  menu_items :: "ref list"

text \<open>
  \<open>seq_id\<close> is a JavaScript number. The model covers the integers from
  \<open>-2^53\<close> to \<open>2^53 - 1\<close>, the values of a signed word of 54 bits: a
  number holds each of them exactly and \<open>JSON.stringify\<close> writes each of them
  in plain decimal. The code does no arithmetic on a \<open>seq_id\<close>.
\<close>

type_synonym seq_number = "54 word"

datatype Action =
  UpdateItem ref seq_number
  | UpdateMenu Menu seq_number
  | UpdateMenuAndItem Menu ref seq_number

section \<open>The regular expression \<open>RegExp(CHECK_STR + '$')\<close>\<close>

text \<open>
  The pattern handed to \<open>RegExp\<close> is the text of \<open>CHECK_STR\<close> followed by
  \<open>$\<close>. In the pattern syntax of ECMAScript the parentheses are not
  literals: they delimit a capturing group. The model parses the fragment of
  the syntax that the pattern uses (literal characters, groups and the
  end-of-input assertion \<open>$\<close>); any other syntax character is refused.
\<close>

datatype regex =
  RChar "16 word"
  | RGroup "regex list"
  | REnd

definition syntax_character :: "16 word \<Rightarrow> bool" where
  "syntax_character c \<longleftrightarrow> c \<in> set (js ''^$.*+?()[]{}|'' @ [0x5C])"

fun parse_regex :: "jstring \<Rightarrow> regex list \<Rightarrow> regex list list \<Rightarrow> regex list option" where
  "parse_regex [] cur stack = (if stack = [] then Some (rev cur) else None)"
| "parse_regex (c # cs) cur stack =
     (if c = 0x28 then parse_regex cs [] (cur # stack)
      else if c = 0x29 then
        (case stack of
           [] \<Rightarrow> None
         | outer # stack' \<Rightarrow> parse_regex cs (RGroup (rev cur) # outer) stack')
      else if c = 0x24 then parse_regex cs (REnd # cur) stack
      else if syntax_character c then None
      else parse_regex cs (RChar c # cur) stack)"

definition RegExp :: "jstring \<Rightarrow> regex list option" where
  "RegExp pattern = parse_regex pattern [] []"

text \<open>
  Matching a sequence of terms at the start of a string gives the rest of the
  string after the match. The fragment has no alternation and no repetition,
  so there is at most one match at a position. Without the \<open>m\<close> flag \<open>$\<close>
  matches at the end of the input only.
\<close>

fun match_term :: "regex \<Rightarrow> jstring \<Rightarrow> jstring option"
  and match_seq :: "regex list \<Rightarrow> jstring \<Rightarrow> jstring option" where
  "match_term (RChar c) s = (case s of [] \<Rightarrow> None | x # xs \<Rightarrow> if x = c then Some xs else None)"
| "match_term (RGroup rs) s = match_seq rs s"
| "match_term REnd s = (if s = [] then Some [] else None)"
| "match_seq [] s = Some s"
| "match_seq (r # rs) s = (case match_term r s of None \<Rightarrow> None | Some s' \<Rightarrow> match_seq rs s')"

text \<open>
  \<open>String.prototype.replace\<close> with a regular expression that has no \<open>g\<close>
  flag replaces the leftmost match; the end of the string is a position too.
\<close>

fun replace :: "regex list \<Rightarrow> jstring \<Rightarrow> jstring \<Rightarrow> jstring" where
  "replace re replacement [] = (case match_seq re [] of None \<Rightarrow> [] | Some rest \<Rightarrow> replacement @ rest)"
| "replace re replacement (c # cs) =
     (case match_seq re (c # cs) of
        None \<Rightarrow> c # replace re replacement cs
      | Some rest \<Rightarrow> replacement @ rest)"

section \<open>MenuModel: \<open>updateCheckedInLinux\<close>\<close>

definition CHECK_STR :: jstring where
  "CHECK_STR = js '' ('' @ [0x221A] @ js '')''"

text \<open>\<open>item.title || ''\<close>: the empty string is the only falsy string.\<close>

definition or_empty :: "jstring \<Rightarrow> jstring" where
  "or_empty s = (if s = [] then [] else s)"

text \<open>
  The title without the match of \<open>RegExp(CHECK_STR + '$')\<close>. The pattern is a
  constant and well formed (\<open>RegExp_CHECK_STR\<close> below), so the constructor
  never throws here.
\<close>

definition strip_check :: "jstring \<Rightarrow> jstring" where
  "strip_check t =
     (case RegExp (CHECK_STR @ js ''$'') of
        None \<Rightarrow> t
      | Some re \<Rightarrow> replace re (js '''') (or_empty t))"

text \<open>
  \<open>updateCheckedInLinux(item)\<close>: \<open>platform\<close> is \<open>process.platform\<close>. The
  function assigns to the \<open>title\<close> of the object it was given and returns
  that same reference.
\<close>

definition updateCheckedInLinux :: "jstring \<Rightarrow> ref \<Rightarrow> heap \<Rightarrow> ref \<times> heap" where
  "updateCheckedInLinux platform item h =
     (if platform \<noteq> js ''linux'' then (item, h)
      else if checked (h item) then
        (item, h(item := (h item)\<lparr>title := title (h item) @ CHECK_STR\<rparr>))
      else
        (item, h(item := (h item)\<lparr>title := strip_check (title (h item))\<rparr>)))"

text \<open>\<open>items.map(updateCheckedInLinux)\<close>: a new array, filled left to right.\<close>

fun map_updateCheckedInLinux :: "jstring \<Rightarrow> ref list \<Rightarrow> heap \<Rightarrow> ref list \<times> heap" where
  "map_updateCheckedInLinux platform [] h = ([], h)"
| "map_updateCheckedInLinux platform (item # rest) h =
     (case updateCheckedInLinux platform item h of
        (item', h1) \<Rightarrow>
          (case map_updateCheckedInLinux platform rest h1 of
             (rest', h2) \<Rightarrow> (item' # rest', h2)))"

section \<open>\<open>JSON.stringify\<close>\<close>

text \<open>
  \<open>JSON.stringify\<close> writes the properties of an object in the order of their
  creation. The model takes the objects to be created as the type declarations
  and the scenarios of the specification list them: \<open>title\<close>, \<open>tooltip\<close>,
  \<open>checked\<close>, \<open>enabled\<close> for an item; \<open>icon\<close>, \<open>title\<close>, \<open>tooltip\<close>,
  \<open>items\<close> for a menu; \<open>type\<close>, then \<open>menu\<close>, then \<open>item\<close>, then
  \<open>seq_id\<close> for an action.
\<close>

definition hex_char :: "16 word \<Rightarrow> 16 word" where
  "hex_char n = (if n < 10 then 0x30 + n else 0x61 + (n - 10))"

definition unicode_escape :: "16 word \<Rightarrow> jstring" where
  "unicode_escape c =
     [0x5C, 0x75, hex_char (drop_bit 12 c), hex_char (take_bit 4 (drop_bit 8 c)),
      hex_char (take_bit 4 (drop_bit 4 c)), hex_char (take_bit 4 c)]"

definition high_surrogate :: "16 word \<Rightarrow> bool" where
  "high_surrogate c \<longleftrightarrow> 0xD800 \<le> c \<and> c \<le> 0xDBFF"

definition low_surrogate :: "16 word \<Rightarrow> bool" where
  "low_surrogate c \<longleftrightarrow> 0xDC00 \<le> c \<and> c \<le> 0xDFFF"

text \<open>
  The body of a quoted string: the quotation mark, the backslash and the
  control characters are escaped, a surrogate that has no partner is written
  as a four-digit hexadecimal escape, every other code unit (the check mark too) is copied.
\<close>

fun quote_chars :: "jstring \<Rightarrow> jstring" where
  "quote_chars [] = []"
| "quote_chars (c # cs) =
     (if c = 0x22 then [0x5C, 0x22] @ quote_chars cs
      else if c = 0x5C then [0x5C, 0x5C] @ quote_chars cs
      else if c = 0x08 then [0x5C, 0x62] @ quote_chars cs
      else if c = 0x0C then [0x5C, 0x66] @ quote_chars cs
      else if c = 0x0A then [0x5C, 0x6E] @ quote_chars cs
      else if c = 0x0D then [0x5C, 0x72] @ quote_chars cs
      else if c = 0x09 then [0x5C, 0x74] @ quote_chars cs
      else if c < 0x20 then unicode_escape c @ quote_chars cs
      else if high_surrogate c then
        (case cs of
           [] \<Rightarrow> unicode_escape c
         | d # ds \<Rightarrow>
             if low_surrogate d then c # d # quote_chars ds
             else unicode_escape c @ quote_chars cs)
      else if low_surrogate c then unicode_escape c @ quote_chars cs
      else c # quote_chars cs)"

definition dq :: jstring where
  "dq = [0x22]"

definition quote :: "jstring \<Rightarrow> jstring" where
  "quote s = dq @ quote_chars s @ dq"

text \<open>A property name with its colon.\<close>

definition key :: "string \<Rightarrow> jstring" where
  "key k = dq @ js k @ dq @ js '':''"

definition stringify_bool :: "bool \<Rightarrow> jstring" where
  "stringify_bool b = (if b then js ''true'' else js ''false'')"

fun nat_digits :: "nat \<Rightarrow> jstring" where
  "nat_digits n =
     (if n < 10 then [0x30 + of_nat n]
      else nat_digits (n div 10) @ [0x30 + of_nat (n mod 10)])"

declare nat_digits.simps [simp del]

text \<open>
  The text of a \<open>seq_id\<close>: the decimal digits of the integer that the word
  holds (\<open>sint\<close>), after a minus sign when it is negative.
\<close>

definition stringify_number :: "seq_number \<Rightarrow> jstring" where
  "stringify_number n =
     (if sint n < 0 then 0x2D # nat_digits (nat (- sint n)) else nat_digits (nat (sint n)))"

definition stringify_item :: "MenuItem \<Rightarrow> jstring" where
  "stringify_item it =
     js ''{'' @ key ''title'' @ quote (title it)
     @ js '','' @ key ''tooltip'' @ quote (tooltip it)
     @ js '','' @ key ''checked'' @ stringify_bool (checked it)
     @ js '','' @ key ''enabled'' @ stringify_bool (enabled it)
     @ js ''}''"

fun join_comma :: "jstring list \<Rightarrow> jstring" where
  "join_comma [] = []"
| "join_comma [x] = x"
| "join_comma (x # y # ys) = x @ js '','' @ join_comma (y # ys)"

definition stringify_menu :: "heap \<Rightarrow> Menu \<Rightarrow> jstring" where
  "stringify_menu h m =
     js ''{'' @ key ''icon'' @ quote (menu_icon m)
     @ js '','' @ key ''title'' @ quote (menu_title m)
     @ js '','' @ key ''tooltip'' @ quote (menu_tooltip m)
     @ js '','' @ key ''items'' @ js ''['' @ join_comma (map (\<lambda>r. stringify_item (h r)) (menu_items m)) @ js '']''
     @ js ''}''"

fun stringify_action :: "heap \<Rightarrow> Action \<Rightarrow> jstring" where
  "stringify_action h (UpdateItem item seq_id) =
     js ''{'' @ key ''type'' @ quote (js ''update-item'')
     @ js '','' @ key ''item'' @ stringify_item (h item)
     @ js '','' @ key ''seq_id'' @ stringify_number seq_id
     @ js ''}''"
| "stringify_action h (UpdateMenu menu seq_id) =
     js ''{'' @ key ''type'' @ quote (js ''update-menu'')
     @ js '','' @ key ''menu'' @ stringify_menu h menu
     @ js '','' @ key ''seq_id'' @ stringify_number seq_id
     @ js ''}''"
| "stringify_action h (UpdateMenuAndItem menu item seq_id) =
     js ''{'' @ key ''type'' @ quote (js ''update-menu-and-item'')
     @ js '','' @ key ''menu'' @ stringify_menu h menu
     @ js '','' @ key ''item'' @ stringify_item (h item)
     @ js '','' @ key ''seq_id'' @ stringify_number seq_id
     @ js ''}''"

section \<open>\<open>JSON.parse\<close>\<close>

text \<open>
  The lines of the renderer are decoded with \<open>JSON.parse\<close>, which accepts
  the JSON grammar and throws a \<open>SyntaxError\<close> on anything else. The model
  is a lexer followed by a pushdown recogniser that builds the value. A number
  is kept as its text: the code never looks at the value of a number it
  received.
\<close>

datatype json =
  JNull
  | JBool bool
  | JNum jstring
  | JStr jstring
  | JArr "json list"
  | JObj "(jstring \<times> json) list"

datatype token =
  TLBrace | TRBrace | TLBrack | TRBrack | TColon | TComma
  | TStr jstring | TNum jstring | TTrue | TFalse | TNull

definition json_space :: "16 word \<Rightarrow> bool" where
  "json_space c \<longleftrightarrow> c = 0x20 \<or> c = 0x09 \<or> c = 0x0A \<or> c = 0x0D"

definition digit :: "16 word \<Rightarrow> bool" where
  "digit c \<longleftrightarrow> 0x30 \<le> c \<and> c \<le> 0x39"

definition hex_value :: "16 word \<Rightarrow> 16 word option" where
  "hex_value c =
     (if 0x30 \<le> c \<and> c \<le> 0x39 then Some (c - 0x30)
      else if 0x61 \<le> c \<and> c \<le> 0x66 then Some (c - 0x61 + 10)
      else if 0x41 \<le> c \<and> c \<le> 0x46 then Some (c - 0x41 + 10)
      else None)"

definition hex4 :: "16 word \<Rightarrow> 16 word \<Rightarrow> 16 word \<Rightarrow> 16 word \<Rightarrow> 16 word option" where
  "hex4 a b c d =
     (case (hex_value a, hex_value b, hex_value c, hex_value d) of
        (Some x, Some y, Some z, Some w) \<Rightarrow> Some (x * 4096 + y * 256 + z * 16 + w)
      | _ \<Rightarrow> None)"

text \<open>
  The text after an opening quotation mark: the decoded string and the number
  of code units read, the closing quotation mark included.
\<close>

fun lex_string :: "jstring \<Rightarrow> jstring \<Rightarrow> nat \<Rightarrow> (jstring \<times> nat) option" where
  "lex_string [] acc n = None"
| "lex_string (c # cs) acc n =
     (if c = 0x22 then Some (rev acc, Suc n)
      else if c = 0x5C then
        (case cs of
           [] \<Rightarrow> None
         | e # es \<Rightarrow>
             if e = 0x22 then lex_string es (0x22 # acc) (n + 2)
             else if e = 0x5C then lex_string es (0x5C # acc) (n + 2)
             else if e = 0x2F then lex_string es (0x2F # acc) (n + 2)
             else if e = 0x62 then lex_string es (0x08 # acc) (n + 2)
             else if e = 0x66 then lex_string es (0x0C # acc) (n + 2)
             else if e = 0x6E then lex_string es (0x0A # acc) (n + 2)
             else if e = 0x72 then lex_string es (0x0D # acc) (n + 2)
             else if e = 0x74 then lex_string es (0x09 # acc) (n + 2)
             else if e = 0x75 then
               (case es of
                  a # b # c' # d # rest \<Rightarrow>
                    (case hex4 a b c' d of
                       None \<Rightarrow> None
                     | Some u \<Rightarrow> lex_string rest (u # acc) (n + 6))
                | _ \<Rightarrow> None)
             else None)
      else if c < 0x20 then None
      else lex_string cs (c # acc) (Suc n))"

text \<open>
  The longest prefix that is a JSON number: an optional minus sign, an integer
  part without a leading zero, an optional fraction and an optional exponent.
  The result is the number of code units of that prefix.
\<close>

definition lex_digits :: "jstring \<Rightarrow> nat" where
  "lex_digits s = length (takeWhile digit s)"

definition lex_int :: "jstring \<Rightarrow> nat option" where
  "lex_int s =
     (case s of
        [] \<Rightarrow> None
      | c # cs \<Rightarrow>
          if c = 0x30 then Some 1
          else if digit c then Some (Suc (lex_digits cs))
          else None)"

definition lex_frac :: "jstring \<Rightarrow> nat option" where
  "lex_frac s =
     (case s of
        [] \<Rightarrow> Some 0
      | c # cs \<Rightarrow>
          if c = 0x2E then (if lex_digits cs = 0 then None else Some (Suc (lex_digits cs)))
          else Some 0)"

definition lex_exp :: "jstring \<Rightarrow> nat option" where
  "lex_exp s =
     (case s of
        [] \<Rightarrow> Some 0
      | c # cs \<Rightarrow>
          if c = 0x65 \<or> c = 0x45 then
            (case cs of
               [] \<Rightarrow> None
             | g # gs \<Rightarrow>
                 if g = 0x2B \<or> g = 0x2D then
                   (if lex_digits gs = 0 then None else Some (2 + lex_digits gs))
                 else if lex_digits cs = 0 then None
                 else Some (Suc (lex_digits cs)))
          else Some 0)"

definition lex_number :: "jstring \<Rightarrow> nat option" where
  "lex_number s =
     (let sign = (case s of [] \<Rightarrow> 0 | c # cs \<Rightarrow> if c = 0x2D then 1 else 0) in
      case lex_int (drop sign s) of
        None \<Rightarrow> None
      | Some i \<Rightarrow>
          (case lex_frac (drop (sign + i) s) of
             None \<Rightarrow> None
           | Some f \<Rightarrow>
               (case lex_exp (drop (sign + i + f) s) of
                  None \<Rightarrow> None
                | Some e \<Rightarrow> Some (sign + i + f + e))))"

fun cons_token :: "token \<Rightarrow> token list option \<Rightarrow> token list option" where
  "cons_token t None = None"
| "cons_token t (Some ts) = Some (t # ts)"

fun tokenize :: "jstring \<Rightarrow> token list option" where
  "tokenize [] = Some []"
| "tokenize (c # cs) =
     (if json_space c then tokenize cs
      else if c = 0x7B then cons_token TLBrace (tokenize cs)
      else if c = 0x7D then cons_token TRBrace (tokenize cs)
      else if c = 0x5B then cons_token TLBrack (tokenize cs)
      else if c = 0x5D then cons_token TRBrack (tokenize cs)
      else if c = 0x3A then cons_token TColon (tokenize cs)
      else if c = 0x2C then cons_token TComma (tokenize cs)
      else if c = 0x22 then
        (case lex_string cs [] 0 of
           None \<Rightarrow> None
         | Some (s, n) \<Rightarrow> cons_token (TStr s) (tokenize (drop n cs)))
      else if c = 0x2D \<or> digit c then
        (case lex_number (c # cs) of
           None \<Rightarrow> None
         | Some n \<Rightarrow> cons_token (TNum (take n (c # cs))) (tokenize (drop (n - 1) cs)))
      else if take 4 (c # cs) = js ''true'' then cons_token TTrue (tokenize (drop 3 cs))
      else if take 5 (c # cs) = js ''false'' then cons_token TFalse (tokenize (drop 4 cs))
      else if take 4 (c # cs) = js ''null'' then cons_token TNull (tokenize (drop 3 cs))
      else None)"

text \<open>
  The recogniser keeps a stack of the arrays and objects that are open: the
  elements or members read so far (latest first) and, inside a member, the
  name whose value is being read.
\<close>

datatype frame =
  InArr "json list"
  | InObj "(jstring \<times> json) list"
  | InMember "(jstring \<times> json) list" jstring

datatype mode =
  MValue
  | MArrFirst
  | MArrNext
  | MObjFirst
  | MObjNext
  | MKey
  | MColon
  | MDone json

text \<open>A value is complete: it goes to the enclosing array or member.\<close>

fun finish :: "json \<Rightarrow> frame list \<Rightarrow> (mode \<times> frame list) option" where
  "finish v [] = Some (MDone v, [])"
| "finish v (InArr els # st) = Some (MArrNext, InArr (v # els) # st)"
| "finish v (InMember ms k # st) = Some (MObjNext, InObj ((k, v) # ms) # st)"
| "finish v (InObj ms # st) = None"

fun start_value :: "token \<Rightarrow> frame list \<Rightarrow> (mode \<times> frame list) option" where
  "start_value TLBrack st = Some (MArrFirst, InArr [] # st)"
| "start_value TLBrace st = Some (MObjFirst, InObj [] # st)"
| "start_value (TStr s) st = finish (JStr s) st"
| "start_value (TNum n) st = finish (JNum n) st"
| "start_value TTrue st = finish (JBool True) st"
| "start_value TFalse st = finish (JBool False) st"
| "start_value TNull st = finish JNull st"
| "start_value _ st = None"

fun close_array :: "frame list \<Rightarrow> (mode \<times> frame list) option" where
  "close_array (InArr els # st) = finish (JArr (rev els)) st"
| "close_array _ = None"

fun close_object :: "frame list \<Rightarrow> (mode \<times> frame list) option" where
  "close_object (InObj ms # st) = finish (JObj (rev ms)) st"
| "close_object _ = None"

fun member_name :: "token \<Rightarrow> frame list \<Rightarrow> (mode \<times> frame list) option" where
  "member_name (TStr k) (InObj ms # st) = Some (MColon, InMember ms k # st)"
| "member_name _ _ = None"

fun parse_step :: "mode \<Rightarrow> frame list \<Rightarrow> token \<Rightarrow> (mode \<times> frame list) option" where
  "parse_step MValue st t = start_value t st"
| "parse_step MArrFirst st t = (if t = TRBrack then close_array st else start_value t st)"
| "parse_step MArrNext st t =
     (if t = TComma then Some (MValue, st)
      else if t = TRBrack then close_array st
      else None)"
| "parse_step MObjFirst st t = (if t = TRBrace then close_object st else member_name t st)"
| "parse_step MObjNext st t =
     (if t = TComma then Some (MKey, st)
      else if t = TRBrace then close_object st
      else None)"
| "parse_step MKey st t = member_name t st"
| "parse_step MColon st t = (if t = TColon then Some (MValue, st) else None)"
| "parse_step (MDone v) st t = None"

fun parse_tokens :: "mode \<Rightarrow> frame list \<Rightarrow> token list \<Rightarrow> json option" where
  "parse_tokens m st [] = (case m of MDone v \<Rightarrow> Some v | _ \<Rightarrow> None)"
| "parse_tokens m st (t # ts) =
     (case parse_step m st t of
        None \<Rightarrow> None
      | Some (m', st') \<Rightarrow> parse_tokens m' st' ts)"

datatype error = SyntaxError | TypeError | LocateError | SpawnError

definition JSON_parse :: "jstring \<Rightarrow> error + json" where
  "JSON_parse input =
     (case tokenize input of
        None \<Rightarrow> Inl SyntaxError
      | Some ts \<Rightarrow>
          (case parse_tokens MValue [] ts of
             None \<Rightarrow> Inl SyntaxError
           | Some v \<Rightarrow> Inr v))"

text \<open>
  \<open>action.type\<close> on a decoded value. Reading a property of \<open>null\<close> throws a
  \<open>TypeError\<close>; an object gives its \<open>type\<close> member (the last one when the
  text repeats the name) or \<open>undefined\<close>; an array, a string, a number and a
  boolean have no such property and give \<open>undefined\<close> (\<open>None\<close>).
\<close>

fun get_type :: "json \<Rightarrow> error + json option" where
  "get_type JNull = Inl TypeError"
| "get_type (JObj ms) = Inr (map_of (rev ms) (js ''type''))"
| "get_type _ = Inr None"

section \<open>The controller: class \<open>SysTray\<close>\<close>

text \<open>
  The calls of \<open>debug\<close> are recorded: they are the only trace of what a
  method was about to do when it throws.
\<close>

datatype debug_entry =
  DebugOnLine jstring
  | DebugOnReady json
  | DebugOnClick json
  | DebugWriteLine jstring
  | DebugSendAction Action
  | DebugOnError jstring

text \<open>
  A listener that the embedding application registers is opaque: it is named
  by a number and each of its invocations is recorded with its argument. It is
  taken to return normally and not to call back into the controller. The
  listener that the constructor registers through \<open>onReady\<close> is
  \<open>Bootstrap\<close>; the one that \<open>kill(true)\<close> registers through \<open>onExit\<close>
  is \<open>ExitNode\<close>.
\<close>

datatype ready_listener = Bootstrap | UserReady nat

datatype line_listener =
  LogLine
  | ReadyHandler ready_listener
  | ClickHandler nat

datatype exit_listener = ExitNode | UserExit nat

datatype listener_call =
  ReadyCall nat
  | ClickCall nat json
  | ExitCall nat
  | ErrorCall nat

text \<open>
  The child process, as \<open>_process\<close> of Node.js has it.

  \<^item> \<open>NoChild\<close>: no controller has been constructed.
  \<^item> \<open>Unstarted\<close>: \<open>spawn\<close> has returned, but the operating system could
    not start the renderer. The object keeps its handle until Node.js reports
    the failure through the \<open>'error'\<close> event; there is no process to
    signal.
  \<^item> \<open>Running\<close>: the renderer was started and its exit has not been
    observed.
  \<^item> \<open>Exited\<close>: Node.js has observed the exit of the renderer, dropped the
    handle and emitted \<open>'exit'\<close>.
  \<^item> \<open>Failed\<close>: the failure to start has been reported and the handle
    dropped; no \<open>'exit'\<close> event follows.
\<close>

datatype child_state = NoChild | Unstarted | Running | Exited | Failed

text \<open>
  The state: \<open>process.platform\<close>, the store of the \<open>MenuItem\<close> objects, the
  fields of the \<open>SysTray\<close> object with the state of the objects of Node.js
  that it owns, and what the host process has seen.

  \<^item> \<open>rl_listeners\<close>: the \<open>'line'\<close> listeners of \<open>_rl\<close>, in the order of
    registration; \<open>rl_closed\<close>: \<open>_rl.close()\<close> was called.
  \<^item> \<open>child\<close>: the state of the child process; \<open>child_killed\<close>: the
    property \<open>_process.killed\<close>, which Node.js sets when \<open>kill\<close> has
    delivered a signal to the child.
  \<^item> \<open>exit_listeners\<close> and \<open>error_listeners\<close>: the \<open>'exit'\<close> and
    \<open>'error'\<close> listeners of \<open>_process\<close>, in the order of registration.
  \<^item> \<open>stdin_written\<close>: the chunks written to the standard input of the
    child, oldest first.
\<close>

record world =
  platform :: jstring
  store :: heap
  debug_log :: "debug_entry list"
  conf_menu :: Menu
  binPath :: jstring
  rl_listeners :: "line_listener list"
  rl_closed :: bool
  child :: child_state
  child_killed :: bool
  exit_listeners :: "exit_listener list"
  error_listeners :: "nat list"
  stdin_written :: "jstring list"
  listener_calls :: "listener_call list"
  node_exited :: bool

text \<open>
  A call returns with the new state or throws with the state it left. The
  state holds the one controller; a method that ends with \<open>return this\<close>
  returns that controller, so \<open>Returns\<close> stands for it when the method is
  one of the chaining methods.
\<close>

datatype outcome = Returns world | Throws error world

definition debug :: "debug_entry \<Rightarrow> world \<Rightarrow> world" where
  "debug e w = w\<lparr>debug_log := debug_log w @ [e]\<rparr>"

text \<open>
  \<open>writeLine(line)\<close>. The statement \<open>debug('writeLine', line + '\n', '=====')\<close>
  has no semicolon and the next line starts with a parenthesis, so no
  semicolon is inserted between them (ECMAScript inserts one only before a
  token that the grammar does not allow, and an argument list is allowed
  after a call). The two lines are the one expression

  \<^verbatim>\<open>debug('writeLine', line + '\n', '=====')(this._process as any).stdin.write(line.trim() + '\n')\<close>

  The logger returns \<open>undefined\<close>; calling that value throws a
  \<open>TypeError\<close> before \<open>stdin.write\<close> or \<open>line.trim()\<close> is evaluated.
  An empty \<open>line\<close> is the only falsy string: then the method returns
  \<open>this\<close> at once.
\<close>

definition writeLine :: "jstring \<Rightarrow> world \<Rightarrow> outcome" where
  "writeLine line w =
     (if line \<noteq> [] then Throws TypeError (debug (DebugWriteLine (line @ [0x0A])) w)
      else Returns w)"

text \<open>
  \<open>sendAction(action)\<close>: the rule is applied to the items of the action, the
  action is logged, and its text goes to \<open>writeLine\<close>.
\<close>

fun update_action :: "jstring \<Rightarrow> Action \<Rightarrow> heap \<Rightarrow> Action \<times> heap" where
  "update_action p (UpdateItem item seq_id) h =
     (case updateCheckedInLinux p item h of
        (item', h1) \<Rightarrow> (UpdateItem item' seq_id, h1))"
| "update_action p (UpdateMenu menu seq_id) h =
     (case map_updateCheckedInLinux p (menu_items menu) h of
        (items', h1) \<Rightarrow> (UpdateMenu (menu\<lparr>menu_items := items'\<rparr>) seq_id, h1))"
| "update_action p (UpdateMenuAndItem menu item seq_id) h =
     (case map_updateCheckedInLinux p (menu_items menu) h of
        (items', h1) \<Rightarrow>
          (case updateCheckedInLinux p item h1 of
             (item', h2) \<Rightarrow> (UpdateMenuAndItem (menu\<lparr>menu_items := items'\<rparr>) item' seq_id, h2)))"

definition sendAction :: "Action \<Rightarrow> world \<Rightarrow> outcome" where
  "sendAction action w =
     (case update_action (platform w) action (store w) of
        (action', h') \<Rightarrow>
          (let w1 = debug (DebugSendAction action') (w\<lparr>store := h'\<rparr>) in
           writeLine (stringify_action (store w1) action') w1))"

text \<open>\<open>onReady(listener)\<close> and \<open>onClick(listener)\<close> add a \<open>'line'\<close> listener.\<close>

definition onReady :: "ready_listener \<Rightarrow> world \<Rightarrow> outcome" where
  "onReady listener w = Returns (w\<lparr>rl_listeners := rl_listeners w @ [ReadyHandler listener]\<rparr>)"

definition onClick :: "nat \<Rightarrow> world \<Rightarrow> outcome" where
  "onClick listener w = Returns (w\<lparr>rl_listeners := rl_listeners w @ [ClickHandler listener]\<rparr>)"

definition onExit :: "exit_listener \<Rightarrow> world \<Rightarrow> world" where
  "onExit listener w = w\<lparr>exit_listeners := exit_listeners w @ [listener]\<rparr>"

definition onError :: "nat \<Rightarrow> world \<Rightarrow> world" where
  "onError listener w = w\<lparr>error_listeners := error_listeners w @ [listener]\<rparr>"

text \<open>
  The constructor. \<open>located\<close> is what \<open>getTrayBinPath(conf.debug, conf.copyDir)\<close>
  gives on the file system at hand: the path of the renderer, or the error it
  throws. \<open>started\<close> tells whether the operating system can start the file
  at that path (it cannot when the file is there but is not executable).
  \<open>spawn\<close> returns a child with a handle in both cases and does not throw:
  the failure to start is reported later, through the \<open>'error'\<close> event.
\<close>

definition new_SysTray :: "Menu \<Rightarrow> error + jstring \<Rightarrow> bool \<Rightarrow> world \<Rightarrow> outcome" where
  "new_SysTray menu located started w =
     (case located of
        Inl e \<Rightarrow> Throws e w
      | Inr path \<Rightarrow>
          (case map_updateCheckedInLinux (platform w) (menu_items menu) (store w) of
             (items', h') \<Rightarrow>
               onReady Bootstrap
                 (w\<lparr>store := h',
                    conf_menu := menu\<lparr>menu_items := items'\<rparr>,
                    binPath := path,
                    rl_listeners := [LogLine],
                    rl_closed := False,
                    child := (if started then Running else Unstarted),
                    child_killed := False,
                    exit_listeners := [],
                    error_listeners := [],
                    stdin_written := []\<rparr>)))"

text \<open>The listeners themselves.\<close>

fun call_ready_listener :: "ready_listener \<Rightarrow> world \<Rightarrow> outcome" where
  "call_ready_listener Bootstrap w = writeLine (stringify_menu (store w) (conf_menu w)) w"
| "call_ready_listener (UserReady i) w =
     Returns (w\<lparr>listener_calls := listener_calls w @ [ReadyCall i]\<rparr>)"

fun call_line_listener :: "line_listener \<Rightarrow> jstring \<Rightarrow> world \<Rightarrow> outcome" where
  "call_line_listener LogLine line w = Returns (debug (DebugOnLine line) w)"
| "call_line_listener (ReadyHandler listener) line w =
     (case JSON_parse line of
        Inl e \<Rightarrow> Throws e w
      | Inr action \<Rightarrow>
          (case get_type action of
             Inl e \<Rightarrow> Throws e w
           | Inr t \<Rightarrow>
               if t = Some (JStr (js ''ready'')) then
                 (case call_ready_listener listener w of
                    Throws e w1 \<Rightarrow> Throws e w1
                  | Returns w1 \<Rightarrow> Returns (debug (DebugOnReady action) w1))
               else Returns w))"
| "call_line_listener (ClickHandler listener) line w =
     (case JSON_parse line of
        Inl e \<Rightarrow> Throws e w
      | Inr action \<Rightarrow>
          (case get_type action of
             Inl e \<Rightarrow> Throws e w
           | Inr t \<Rightarrow>
               if t = Some (JStr (js ''clicked'')) then
                 Returns ((debug (DebugOnClick action) w)
                   \<lparr>listener_calls := listener_calls w @ [ClickCall listener action]\<rparr>)
               else Returns w))"

text \<open>
  \<open>emit('line', line)\<close> calls the listeners in the order of registration; an
  exception of a listener leaves \<open>emit\<close> and the later listeners are not
  called.
\<close>

fun emit_line :: "line_listener list \<Rightarrow> jstring \<Rightarrow> world \<Rightarrow> outcome" where
  "emit_line [] line w = Returns w"
| "emit_line (l # ls) line w =
     (case call_line_listener l line w of
        Throws e w1 \<Rightarrow> Throws e w1
      | Returns w1 \<Rightarrow> emit_line ls line w1)"

text \<open>The renderer prints a line. A closed interface emits nothing.\<close>

definition on_line :: "jstring \<Rightarrow> world \<Rightarrow> outcome" where
  "on_line line w = (if rl_closed w then Returns w else emit_line (rl_listeners w) line w)"

text \<open>
  The read loop over the lines of the renderer. Nothing in \<open>index.ts\<close>
  catches an exception of a line listener, so it is an uncaught exception of
  the host: the loop ends with it and the lines that follow are not read.
\<close>

fun read_lines :: "jstring list \<Rightarrow> world \<Rightarrow> outcome" where
  "read_lines [] w = Returns w"
| "read_lines (line # rest) w =
     (case on_line line w of
        Throws e w1 \<Rightarrow> Throws e w1
      | Returns w1 \<Rightarrow> read_lines rest w1)"

text \<open>
  \<open>_process.kill()\<close> of Node.js sets \<open>killed\<close> when the signal has been
  delivered, and only then. A running child receives the signal. A child that
  could not be started still has its handle, but there is no process: nothing
  is delivered and \<open>killed\<close> stays as it is. Without a handle (the exit was
  observed, or the failure was reported) the call sends nothing. In the last
  two cases the call returns \<open>false\<close>. It does not throw.
\<close>

fun deliver_signal :: "child_state \<Rightarrow> bool" where
  "deliver_signal Running = True"
| "deliver_signal Unstarted = False"
| "deliver_signal Exited = False"
| "deliver_signal Failed = False"
| "deliver_signal NoChild = False"

definition child_kill :: "world \<Rightarrow> world" where
  "child_kill w = (if deliver_signal (child w) then w\<lparr>child_killed := True\<rparr> else w)"

text \<open>\<open>_rl.close()\<close> of Node.js: closing a closed interface does nothing.\<close>

definition rl_close :: "world \<Rightarrow> world" where
  "rl_close w = (if rl_closed w then w else w\<lparr>rl_closed := True\<rparr>)"

definition kill :: "bool \<Rightarrow> world \<Rightarrow> outcome" where
  "kill exitNode w =
     (let w1 = (if exitNode then onExit ExitNode w else w) in
      Returns (child_kill (rl_close w1)))"

text \<open>The getter \<open>killed\<close>.\<close>

definition killed :: "world \<Rightarrow> bool" where
  "killed w = child_killed w"

text \<open>
  Node.js observes the exit of the child: the handle is dropped and the
  \<open>'exit'\<close> listeners are called in order. \<open>process.exit(0)\<close> ends the
  host, so the listeners after \<open>ExitNode\<close> are not called.
\<close>

fun emit_exit :: "exit_listener list \<Rightarrow> world \<Rightarrow> world" where
  "emit_exit [] w = w"
| "emit_exit (ExitNode # ls) w = w\<lparr>node_exited := True\<rparr>"
| "emit_exit (UserExit i # ls) w =
     emit_exit ls (w\<lparr>listener_calls := listener_calls w @ [ExitCall i]\<rparr>)"

definition on_child_exit :: "world \<Rightarrow> world" where
  "on_child_exit w =
     (if child w = Running then emit_exit (exit_listeners w) (w\<lparr>child := Exited\<rparr>) else w)"

definition exit_observed :: "world \<Rightarrow> bool" where
  "exit_observed w \<longleftrightarrow> child w = Exited"

text \<open>
  Node.js reports that the child could not be started: the handle is dropped
  and \<open>'error'\<close> is emitted. A listener registered by \<open>onError\<close> logs the
  error with \<open>binPath\<close> and calls the listener of the application. An
  \<open>'error'\<close> event without a listener is thrown by the emitter.
\<close>

fun emit_error :: "nat list \<Rightarrow> world \<Rightarrow> world" where
  "emit_error [] w = w"
| "emit_error (i # ls) w =
     emit_error ls
       ((debug (DebugOnError (binPath w)) w)
          \<lparr>listener_calls := listener_calls w @ [ErrorCall i]\<rparr>)"

definition on_spawn_error :: "world \<Rightarrow> outcome" where
  "on_spawn_error w =
     (if child w = Unstarted then
        (if error_listeners w = [] then Throws SpawnError (w\<lparr>child := Failed\<rparr>)
         else Returns (emit_error (error_listeners w) (w\<lparr>child := Failed\<rparr>)))
      else Returns w)"

section \<open>Reading an outcome, and the scenarios\<close>

fun thrown :: "outcome \<Rightarrow> error option" where
  "thrown (Returns w) = None"
| "thrown (Throws e w) = Some e"

fun world_of :: "outcome \<Rightarrow> world" where
  "world_of (Returns w) = w"
| "world_of (Throws e w) = w"

text \<open>The lines that \<open>writeLine\<close> was asked to write, oldest first.\<close>

fun write_attempts :: "debug_entry list \<Rightarrow> jstring list" where
  "write_attempts [] = []"
| "write_attempts (DebugWriteLine l # es) = l # write_attempts es"
| "write_attempts (e # es) = write_attempts es"

text \<open>\<open>item.checked = b\<close>, done by the application between two sends.\<close>

definition set_checked :: "ref \<Rightarrow> bool \<Rightarrow> heap \<Rightarrow> heap" where
  "set_checked item b h = h(item := (h item)\<lparr>checked := b\<rparr>)"

text \<open>
  The objects of the scenarios: the item \<open>A\<close> at address 0, the item \<open>B\<close>
  at every other address, and the menu that holds \<open>A\<close>.
\<close>

definition item_A :: MenuItem where
  "item_A = \<lparr>title = js ''A'', tooltip = [], checked = False, enabled = True\<rparr>"

definition item_B :: MenuItem where
  "item_B = \<lparr>title = js ''B'', tooltip = [], checked = True, enabled = True\<rparr>"

definition scenario_store :: heap where
  "scenario_store = (\<lambda>r. if r = 0 then item_A else item_B)"

definition scenario_menu :: Menu where
  "scenario_menu =
     \<lparr>menu_icon = js ''i'', menu_title = js ''T'', menu_tooltip = js ''tt'', menu_items = [0]\<rparr>"

text \<open>A host on Linux before the controller is constructed.\<close>

definition linux_host :: world where
  "linux_host =
     \<lparr>platform = js ''linux'', store = scenario_store, debug_log = [],
      conf_menu = scenario_menu, binPath = [], rl_listeners = [], rl_closed = False,
      child = NoChild, child_killed = False, exit_listeners = [], error_listeners = [],
      stdin_written = [], listener_calls = [], node_exited = False\<rparr>"

text \<open>The session of the scenarios, with one click listener registered.\<close>

definition session :: world where
  "session =
     world_of (onClick 1
       (world_of (new_SysTray scenario_menu (Inr (js ''tray_linux_release'')) True linux_host)))"


definition ready_line :: jstring where
  "ready_line = js ''{'' @ key ''type'' @ quote (js ''ready'') @ js ''}''"


section \<open>Facts about the marker\<close>

lemma RegExp_CHECK_STR:
  "RegExp (CHECK_STR @ js ''$'') = Some [RChar 0x20, RGroup [RChar 0x221A], REnd]"
  by (simp add: RegExp_def CHECK_STR_def js_def syntax_character_def)

lemma match_check:
  "match_seq [RChar 0x20, RGroup [RChar 0x221A], REnd] s =
     (if s = [0x20, 0x221A] then Some [] else None)"
  by (auto split: list.splits)

lemma replace_check_suffix:
  "replace [RChar 0x20, RGroup [RChar 0x221A], REnd] [] (u @ [0x20, 0x221A]) = u"
  by (induction u) (simp_all only: replace.simps match_check append_Nil append_Cons, simp_all)

lemma replace_check_other:
  "\<forall>u. t \<noteq> u @ [0x20, 0x221A] \<Longrightarrow>
   replace [RChar 0x20, RGroup [RChar 0x221A], REnd] [] t = t"
proof (induction t)
  case Nil
  show ?case by (simp only: replace.simps match_check, simp)
next
  case (Cons c cs)
  have a: "c # cs \<noteq> [0x20, 0x221A]"
    using Cons.prems[rule_format, of "[]"] by simp
  have b: "\<forall>u. cs \<noteq> u @ [0x20, 0x221A]"
  proof
    fix u
    show "cs \<noteq> u @ [0x20, 0x221A]"
      using Cons.prems[rule_format, of "c # u"] by simp
  qed
  show ?case
    using a Cons.IH[OF b] by (simp only: replace.simps match_check, simp)
qed

text \<open>
  What the \<open>else\<close> branch removes is therefore a trailing space followed by
  the check mark, and nothing else.
\<close>

lemma strip_check_suffix: "strip_check (u @ [0x20, 0x221A]) = u"
  unfolding strip_check_def RegExp_CHECK_STR
  by (simp add: or_empty_def js_def replace_check_suffix
      del: replace.simps match_seq.simps match_term.simps)

lemma strip_check_other: "\<forall>u. t \<noteq> u @ [0x20, 0x221A] \<Longrightarrow> strip_check t = t"
  unfolding strip_check_def RegExp_CHECK_STR
  by (simp add: or_empty_def js_def replace_check_other
      del: replace.simps match_seq.simps match_term.simps)

lemma CHECK_STR_units: "CHECK_STR = [0x20, 0x28, 0x221A, 0x29]"
  by (simp add: CHECK_STR_def js_def)

lemma strip_check_marker: "strip_check (t @ CHECK_STR) = t @ CHECK_STR"
proof (rule strip_check_other, rule allI, rule notI)
  fix u
  assume "t @ CHECK_STR = u @ [0x20, 0x221A]"
  then have "last (t @ CHECK_STR) = last (u @ [0x20, 0x221A])"
    by simp
  then show False
    by (simp add: CHECK_STR_units)
qed


section \<open>The checked-state rule\<close>




text \<open>
  C2, at the item \<open>B\<close> on Linux: the rule is applied with \<open>checked\<close> true,
  the application sets \<open>checked\<close> to false, the rule is applied again. The
  title was \<open>B\<close>; it still ends with the marker afterwards.
\<close>

theorem uncheck_keeps_marker:
  "title (scenario_store 1) = js ''B''
   \<and> title (snd (updateCheckedInLinux (js ''linux'') 1
                   (set_checked 1 False
                      (snd (updateCheckedInLinux (js ''linux'') 1 scenario_store)))) 1)
       = js ''B'' @ CHECK_STR"
  by (simp add: updateCheckedInLinux_def set_checked_def scenario_store_def item_B_def
      strip_check_marker)

text \<open>
  C9, as the code has it. The rule returns the reference it was given. On a
  platform other than Linux the store is unchanged. On Linux the rule assigns
  to the \<open>title\<close> of the caller's object: every other object of the store
  and the \<open>tooltip\<close>, \<open>checked\<close> and \<open>enabled\<close> of the object itself are
  kept.
\<close>

theorem updateCheckedInLinux_frame:
  "fst (updateCheckedInLinux p r h) = r
   \<and> (p \<noteq> js ''linux'' \<longrightarrow> snd (updateCheckedInLinux p r h) = h)
   \<and> (\<forall>r'. r' \<noteq> r \<longrightarrow> snd (updateCheckedInLinux p r h) r' = h r')
   \<and> tooltip (snd (updateCheckedInLinux p r h) r) = tooltip (h r)
   \<and> checked (snd (updateCheckedInLinux p r h) r) = checked (h r)
   \<and> enabled (snd (updateCheckedInLinux p r h) r) = enabled (h r)"
  by (simp add: updateCheckedInLinux_def)

theorem updateCheckedInLinux_frame_witness:
  "js ''darwin'' \<noteq> js ''linux''
   \<and> snd (updateCheckedInLinux (js ''darwin'') 1 scenario_store) = scenario_store
   \<and> (0::nat) \<noteq> 1
   \<and> snd (updateCheckedInLinux (js ''linux'') 1 scenario_store) 0 = scenario_store 0
   \<and> checked (snd (updateCheckedInLinux (js ''linux'') 1 scenario_store) 1)"
proof -
  have d: "js ''darwin'' \<noteq> js ''linux''"
    by (simp add: js_def)
  have c: "checked (scenario_store 1)"
    by (simp add: scenario_store_def item_B_def)
  show ?thesis
    using d c updateCheckedInLinux_frame [of "js ''darwin''" 1 scenario_store]
      updateCheckedInLinux_frame [of "js ''linux''" 1 scenario_store]
    by simp
qed

text \<open>
  The rule is not free of side effects: on Linux the title of the caller's
  object \<open>B\<close> is another after the call, and the reference returned is the
  one of that object.
\<close>

theorem updateCheckedInLinux_pure_counterexample:
  "fst (updateCheckedInLinux (js ''linux'') 1 scenario_store) = 1
   \<and> title (scenario_store 1) = js ''B''
   \<and> title (snd (updateCheckedInLinux (js ''linux'') 1 scenario_store) 1) = js ''B'' @ CHECK_STR
   \<and> snd (updateCheckedInLinux (js ''linux'') 1 scenario_store) \<noteq> scenario_store"
proof -
  let ?h = "snd (updateCheckedInLinux (js ''linux'') 1 scenario_store)"
  have t: "title (?h 1) = js ''B'' @ CHECK_STR"
    by (simp add: updateCheckedInLinux_def scenario_store_def item_B_def)
  have b: "title (scenario_store 1) = js ''B''"
    by (simp add: scenario_store_def item_B_def)
  have "title (?h 1) \<noteq> title (scenario_store 1)"
    unfolding t b by (simp add: CHECK_STR_units)
  then have "?h \<noteq> scenario_store"
    by auto
  with t b show ?thesis
    by (simp add: updateCheckedInLinux_def)
qed

section \<open>\<open>writeLine\<close> and \<open>sendAction\<close>\<close>

lemma write_attempts_append:
  "write_attempts (xs @ ys) = write_attempts xs @ write_attempts ys"
  by (induction xs rule: write_attempts.induct) simp_all

lemma js_Cons: "js (c # cs) = of_char c # js cs"
  by (simp add: js_def)

lemma stringify_menu_nonempty: "stringify_menu h m \<noteq> []"
  by (simp add: stringify_menu_def js_Cons)

lemma stringify_action_nonempty: "stringify_action h a \<noteq> []"
  by (cases a) (simp_all add: js_Cons)

lemma writeLine_throws:
  "line \<noteq> [] \<Longrightarrow>
   writeLine line w = Throws TypeError (debug (DebugWriteLine (line @ [0x0A])) w)"
  by (simp add: writeLine_def)

lemma writeLine_stdin: "stdin_written (world_of (writeLine line w)) = stdin_written w"
  by (simp add: writeLine_def debug_def)

text \<open>
  The only \<open>stdin.write\<close> of \<open>index.ts\<close> is the one in \<open>writeLine\<close>
  that is never reached: a line of the renderer leaves the input of the child
  as it is, whatever the listeners.
\<close>

lemma call_line_listener_stdin:
  "stdin_written (world_of (call_line_listener l line w)) = stdin_written w"
proof (cases l)
  case LogLine
  then show ?thesis by (simp add: debug_def)
next
  case (ReadyHandler r)
  then show ?thesis
    by (cases r) (simp_all add: writeLine_def debug_def split: sum.splits)
next
  case (ClickHandler c)
  then show ?thesis by (simp add: debug_def split: sum.splits)
qed

lemma emit_line_stdin: "stdin_written (world_of (emit_line ls line w)) = stdin_written w"
proof (induction ls arbitrary: w)
  case Nil
  show ?case by simp
next
  case (Cons l ls)
  show ?case
  proof (cases "call_line_listener l line w")
    case (Returns w1)
    then show ?thesis
      using Cons.IH[of w1] call_line_listener_stdin[of l line w] by simp
  next
    case (Throws e w1)
    then show ?thesis
      using call_line_listener_stdin[of l line w] by simp
  qed
qed

lemma on_line_stdin: "stdin_written (world_of (on_line line w)) = stdin_written w"
  by (simp add: on_line_def emit_line_stdin)

text \<open>
  The text of an action is never empty, so \<open>sendAction\<close> throws on every
  action and on every platform, and leaves the input of the child untouched.
\<close>

lemma sendAction_throws: "thrown (sendAction a w) = Some TypeError"
  by (simp add: sendAction_def writeLine_throws stringify_action_nonempty Let_def
      split: prod.split)

lemma sendAction_stdin: "stdin_written (world_of (sendAction a w)) = stdin_written w"
  by (simp add: sendAction_def writeLine_throws stringify_action_nonempty debug_def Let_def
      split: prod.split)

lemma updateCheckedInLinux_fst: "fst (updateCheckedInLinux p r h) = r"
  by (simp add: updateCheckedInLinux_def)

lemma map_updateCheckedInLinux_fst: "fst (map_updateCheckedInLinux p rs h) = rs"
proof (induction rs arbitrary: h)
  case Nil
  show ?case by simp
next
  case (Cons r rs)
  obtain r' h1 where u: "updateCheckedInLinux p r h = (r', h1)"
    by fastforce
  obtain rs' h2 where m: "map_updateCheckedInLinux p rs h1 = (rs', h2)"
    by fastforce
  from u updateCheckedInLinux_fst[of p r h] have "r' = r"
    by simp
  moreover from m Cons.IH[of h1] have "rs' = rs"
    by simp
  ultimately show ?case
    using u m by simp
qed

text \<open>
  What \<open>sendAction\<close> does before it throws: the rule is applied to the
  items of the action, and the text of the updated action is what
  \<open>writeLine\<close> is asked to write.
\<close>

lemma sendAction_applies_rule:
  "store (world_of (sendAction a w)) = snd (update_action (platform w) a (store w))
   \<and> write_attempts (debug_log (world_of (sendAction a w)))
       = write_attempts (debug_log w)
         @ [stringify_action (snd (update_action (platform w) a (store w)))
              (fst (update_action (platform w) a (store w))) @ [0x0A]]"
  by (simp add: sendAction_def writeLine_throws stringify_action_nonempty debug_def Let_def
      write_attempts_append split: prod.split)

text \<open>
  C3, at the scenario of the specification: on Linux, \<open>sendAction\<close> with the
  \<open>update-item\<close> action for the item \<open>B\<close> (checked) and \<open>seq_id\<close> 7. The
  rule is applied to the item and the text that \<open>writeLine\<close> is asked to
  write holds the title with the marker and the \<open>seq_id\<close>; but the call
  throws a \<open>TypeError\<close> and nothing is written to the child.
\<close>

theorem sendAction_scenario:
  "thrown (sendAction (UpdateItem 1 7) session) = Some TypeError
   \<and> stdin_written (world_of (sendAction (UpdateItem 1 7) session)) = []
   \<and> title (store (world_of (sendAction (UpdateItem 1 7) session)) 1) = js ''B'' @ CHECK_STR
   \<and> write_attempts (debug_log (world_of (sendAction (UpdateItem 1 7) session)))
       = [js ''{'' @ key ''type'' @ dq @ js ''update-item'' @ dq
          @ js '','' @ key ''item''
          @ js ''{'' @ key ''title'' @ dq @ js ''B'' @ CHECK_STR @ dq
          @ js '','' @ key ''tooltip'' @ dq @ dq
          @ js '','' @ key ''checked'' @ js ''true''
          @ js '','' @ key ''enabled'' @ js ''true''
          @ js ''}''
          @ js '','' @ key ''seq_id'' @ js ''7''
          @ js ''}'' @ [0x0A]]"
  by code_simp

text \<open>
  C6, at three arguments. \<open>writeLine('a')\<close> throws a \<open>TypeError\<close> and
  writes nothing, where the claim has it write the line; so does
  \<open>writeLine('   ')\<close>, whose argument is truthy; \<open>writeLine('')\<close> returns
  and writes nothing.
\<close>

theorem writeLine_scenario:
  "thrown (writeLine (js ''a'') session) = Some TypeError
   \<and> stdin_written (world_of (writeLine (js ''a'') session)) = []
   \<and> thrown (writeLine (js ''   '') session) = Some TypeError
   \<and> stdin_written (world_of (writeLine (js ''   '') session)) = []
   \<and> thrown (writeLine [] session) = None
   \<and> stdin_written (world_of (writeLine [] session)) = []"
  by code_simp

text \<open>
  C10, on the session of the scenarios. \<open>onReady\<close> and \<open>onClick\<close>
  return, and so does \<open>writeLine\<close> with the empty string; \<open>writeLine\<close>
  with a line to write and \<open>sendAction\<close> do not return: they throw.
\<close>

theorem chaining_scenario:
  "thrown (onReady (UserReady 2) session) = None
   \<and> thrown (onClick 3 session) = None
   \<and> thrown (writeLine [] session) = None
   \<and> thrown (writeLine (js ''a'') session) = Some TypeError
   \<and> thrown (sendAction (UpdateMenu scenario_menu 0) session) = Some TypeError"
  by code_simp

section \<open>The lines of the renderer\<close>






lemma parse_empty_object: "JSON_parse (js ''{}'') = Inr (JObj [])"
  by code_simp



lemma parse_ready_line:
  "JSON_parse ready_line = Inr (JObj [(js ''type'', JStr (js ''ready''))])"
  by code_simp

lemma session_listeners:
  "rl_listeners session = [LogLine, ReadyHandler Bootstrap, ClickHandler 1]"
  by code_simp

lemma session_open: "\<not> rl_closed session"
  by code_simp




section \<open>The bootstrap push\<close>

lemma call_line_listener_not_ready:
  "\<forall>v. JSON_parse line = Inr v \<longrightarrow> get_type v \<noteq> Inr (Some (JStr (js ''ready''))) \<Longrightarrow>
   write_attempts (debug_log (world_of (call_line_listener l line w)))
     = write_attempts (debug_log w)"
  by (cases l) (auto simp add: debug_def write_attempts_append split: sum.splits)

lemma emit_line_not_ready:
  "\<forall>v. JSON_parse line = Inr v \<longrightarrow> get_type v \<noteq> Inr (Some (JStr (js ''ready''))) \<Longrightarrow>
   write_attempts (debug_log (world_of (emit_line ls line w))) = write_attempts (debug_log w)"
proof (induction ls arbitrary: w)
  case Nil
  show ?case by simp
next
  case (Cons l ls)
  show ?case
  proof (cases "call_line_listener l line w")
    case (Returns w1)
    then show ?thesis
      using Cons.IH[OF Cons.prems, of w1] call_line_listener_not_ready[OF Cons.prems, of l w]
      by simp
  next
    case (Throws e w1)
    then show ?thesis
      using call_line_listener_not_ready[OF Cons.prems, of l w] by simp
  qed
qed

lemma type_ready:
  "get_type (JObj [(js ''type'', JStr (js ''ready''))]) = Inr (Some (JStr (js ''ready'')))"
  by simp

lemma type_empty_object: "get_type (JObj []) \<noteq> Inr (Some (JStr (js ''ready'')))"
  by simp

text \<open>
  C5, as the code has it. The constructor registers its \<open>ready\<close> listener
  after the logger of lines and asks for no write itself. From then on every
  line of type \<open>ready\<close> that the open interface emits, the first one and
  each later one alike, makes that listener ask \<open>writeLine\<close> once for the text
  of \<open>conf.menu\<close> as it is then (the bare menu, without a \<open>type\<close>); a line
  that does not decode to type \<open>ready\<close> causes no such request.
\<close>

theorem bootstrap_on_every_ready_line:
  "rl_listeners (world_of (new_SysTray menu (Inr path) started w0)) = [LogLine, ReadyHandler Bootstrap]
   \<and> rl_closed (world_of (new_SysTray menu (Inr path) started w0)) = False
   \<and> write_attempts (debug_log (world_of (new_SysTray menu (Inr path) started w0)))
       = write_attempts (debug_log w0)
   \<and> (\<not> rl_closed w \<and> rl_listeners w = LogLine # ReadyHandler Bootstrap # ls
        \<and> JSON_parse line = Inr v \<and> get_type v = Inr (Some (JStr (js ''ready''))) \<longrightarrow>
        write_attempts (debug_log (world_of (on_line line w)))
          = write_attempts (debug_log w) @ [stringify_menu (store w) (conf_menu w) @ [0x0A]])
   \<and> ((\<forall>u. JSON_parse line = Inr u \<longrightarrow> get_type u \<noteq> Inr (Some (JStr (js ''ready'')))) \<longrightarrow>
        write_attempts (debug_log (world_of (on_line line w))) = write_attempts (debug_log w))"
proof (intro conjI impI)
  show "rl_listeners (world_of (new_SysTray menu (Inr path) started w0))
      = [LogLine, ReadyHandler Bootstrap]"
    and "rl_closed (world_of (new_SysTray menu (Inr path) started w0)) = False"
    and "write_attempts (debug_log (world_of (new_SysTray menu (Inr path) started w0)))
       = write_attempts (debug_log w0)"
    by (simp_all add: new_SysTray_def onReady_def split: prod.split)
next
  assume a: "\<not> rl_closed w \<and> rl_listeners w = LogLine # ReadyHandler Bootstrap # ls
        \<and> JSON_parse line = Inr v \<and> get_type v = Inr (Some (JStr (js ''ready'')))"
  then show "write_attempts (debug_log (world_of (on_line line w)))
          = write_attempts (debug_log w) @ [stringify_menu (store w) (conf_menu w) @ [0x0A]]"
    by (simp add: on_line_def writeLine_throws stringify_menu_nonempty debug_def
        write_attempts_append)
next
  assume "\<forall>u. JSON_parse line = Inr u \<longrightarrow> get_type u \<noteq> Inr (Some (JStr (js ''ready'')))"
  then show "write_attempts (debug_log (world_of (on_line line w)))
      = write_attempts (debug_log w)"
    by (simp add: on_line_def emit_line_not_ready)
qed

theorem bootstrap_on_every_ready_line_witness:
  "\<not> rl_closed session
   \<and> rl_listeners session = LogLine # ReadyHandler Bootstrap # [ClickHandler 1]
   \<and> JSON_parse ready_line = Inr (JObj [(js ''type'', JStr (js ''ready''))])
   \<and> get_type (JObj [(js ''type'', JStr (js ''ready''))]) = Inr (Some (JStr (js ''ready'')))
   \<and> write_attempts (debug_log (world_of (on_line ready_line session)))
       = write_attempts (debug_log session)
         @ [stringify_menu (store session) (conf_menu session) @ [0x0A]]
   \<and> JSON_parse (js ''{}'') = Inr (JObj [])
   \<and> get_type (JObj []) \<noteq> Inr (Some (JStr (js ''ready'')))
   \<and> write_attempts (debug_log (world_of (on_line (js ''{}'') session)))
       = write_attempts (debug_log session)"
  using bootstrap_on_every_ready_line [of scenario_menu "js ''tray_linux_release''" True
      linux_host session "[ClickHandler 1]" ready_line
      "JObj [(js ''type'', JStr (js ''ready''))]"]
    bootstrap_on_every_ready_line [of scenario_menu "js ''tray_linux_release''" True
      linux_host session "[ClickHandler 1]" "js ''{}''" "JObj []"]
    parse_ready_line type_ready parse_empty_object type_empty_object session_listeners
    session_open
  by simp

text \<open>
  The claim as the specification states it fails on the session of the
  scenarios. After one \<open>ready\<close> line no message has reached the child: the
  push throws. And the push is not kept to the first \<open>ready\<close> line: when two
  such lines are handled, \<open>writeLine\<close> is asked twice.
\<close>

theorem bootstrap_once_counterexample:
  "thrown (read_lines [ready_line] session) = Some TypeError
   \<and> stdin_written (world_of (read_lines [ready_line] session)) = []
   \<and> length (write_attempts (debug_log
        (world_of (on_line ready_line (world_of (on_line ready_line session)))))) = 2"
  by code_simp

section \<open>\<open>kill\<close> and \<open>killed\<close>\<close>

lemma call_line_listener_killed:
  "child_killed (world_of (call_line_listener l line w)) = child_killed w"
proof (cases l)
  case LogLine
  then show ?thesis by (simp add: debug_def)
next
  case (ReadyHandler r)
  then show ?thesis
    by (cases r) (simp_all add: writeLine_def debug_def split: sum.splits)
next
  case (ClickHandler c)
  then show ?thesis by (simp add: debug_def split: sum.splits)
qed

lemma emit_line_killed: "child_killed (world_of (emit_line ls line w)) = child_killed w"
proof (induction ls arbitrary: w)
  case Nil
  show ?case by simp
next
  case (Cons l ls)
  show ?case
  proof (cases "call_line_listener l line w")
    case (Returns w1)
    then show ?thesis
      using Cons.IH[of w1] call_line_listener_killed[of l line w] by simp
  next
    case (Throws e w1)
    then show ?thesis
      using call_line_listener_killed[of l line w] by simp
  qed
qed

lemma on_line_killed: "child_killed (world_of (on_line line w)) = child_killed w"
  by (simp add: on_line_def emit_line_killed)

lemma emit_exit_killed: "child_killed (emit_exit ls w) = child_killed w"
  by (induction ls w rule: emit_exit.induct) simp_all

lemma emit_error_killed: "child_killed (emit_error ls w) = child_killed w"
  by (induction ls arbitrary: w) (simp_all add: debug_def)







text \<open>
  C8, as the code has it. \<open>killed\<close> tells whether a call of \<open>kill\<close> has
  delivered a signal to the child. It is false after the constructor, whether
  or not the renderer could be started. A call of \<open>kill\<close> makes it true when
  the child is running at the call (started, exit not observed) and leaves it
  as it is otherwise, also for a child that could not be started and still
  has its handle. The exit of the child, the report of a failed start, a line
  of the renderer and the other methods do not change it.
\<close>

theorem killed_is_signal_delivered:
  "killed (world_of (new_SysTray menu (Inr path) started w0)) = False
   \<and> killed (world_of (kill exitNode w)) = (killed w \<or> child w = Running)
   \<and> killed (on_child_exit w) = killed w
   \<and> killed (world_of (on_spawn_error w)) = killed w
   \<and> killed (world_of (on_line line w)) = killed w
   \<and> killed (world_of (sendAction action w)) = killed w
   \<and> killed (world_of (writeLine l w)) = killed w
   \<and> killed (world_of (onReady r w)) = killed w
   \<and> killed (world_of (onClick c w)) = killed w
   \<and> killed (onExit x w) = killed w
   \<and> killed (onError y w) = killed w"
proof (intro conjI)
  show "killed (world_of (new_SysTray menu (Inr path) started w0)) = False"
    by (simp add: killed_def new_SysTray_def onReady_def split: prod.split)
  show "killed (world_of (kill exitNode w)) = (killed w \<or> child w = Running)"
    by (cases "child w")
      (simp_all add: killed_def kill_def child_kill_def rl_close_def onExit_def)
  show "killed (on_child_exit w) = killed w"
    by (simp add: killed_def on_child_exit_def emit_exit_killed)
  show "killed (world_of (on_spawn_error w)) = killed w"
    by (simp add: killed_def on_spawn_error_def emit_error_killed)
  show "killed (world_of (on_line line w)) = killed w"
    by (simp add: killed_def on_line_killed)
  show "killed (world_of (sendAction action w)) = killed w"
    by (simp add: killed_def sendAction_def writeLine_def debug_def Let_def split: prod.split)
  show "killed (world_of (writeLine l w)) = killed w"
    by (simp add: killed_def writeLine_def debug_def)
  show "killed (world_of (onReady r w)) = killed w"
    by (simp add: killed_def onReady_def)
  show "killed (world_of (onClick c w)) = killed w"
    by (simp add: killed_def onClick_def)
  show "killed (onExit x w) = killed w"
    by (simp add: killed_def onExit_def)
  show "killed (onError y w) = killed w"
    by (simp add: killed_def onError_def)
qed

text \<open>
  The claim as the specification states it fails both ways on the session of
  the scenarios: when the child exits on its own the exit is observed and
  \<open>killed\<close> is false; after \<open>kill(false)\<close> on the running child
  \<open>killed\<close> is true and the exit has not been observed.
\<close>

theorem killed_exit_observed_counterexample:
  "exit_observed (on_child_exit session)
   \<and> killed (on_child_exit session) = False
   \<and> killed (world_of (kill False session)) = True
   \<and> exit_observed (world_of (kill False session)) = False"
  by code_simp

end
